theory Spec2Isabelle
  imports Complex_Main "HOL-Library.List_Lexorder" "HOL-Library.Char_ord" "HOL-Library.Sublist"
begin

section \<open>Gemini-StreamChat: the chat session of \<^verbatim>\<open>chatbot.py\<close>\<close>

text \<open>
  A Python \<^verbatim>\<open>str\<close> is modelled by the \<^typ>\<open>string\<close> of its UTF-8 bytes, and
  \<^verbatim>\<open>bytes\<close> by a \<^typ>\<open>string\<close> as well. Truthiness of a string or a list is
  non-emptiness; truthiness of an optional object is being present.
\<close>

subsection \<open>Configuration constants\<close>

definition TEXT_MODEL :: string where
  "TEXT_MODEL = ''gemini-flash-latest''"

definition MULTIMODAL_MODEL :: string where
  "MULTIMODAL_MODEL = ''gemini-2.0-flash''"

definition MAX_OUTPUT_TOKENS :: nat where
  "MAX_OUTPUT_TOKENS = 512"

definition TEMPERATURE :: real where
  "TEMPERATURE = 9 / 10"

definition TOP_P :: real where
  "TOP_P = 95 / 100"

subsection \<open>Data\<close>

text \<open>
  An uploaded file as the script uses it: its \<^verbatim>\<open>type\<close> attribute (\<open>None\<close> when the
  attribute is missing or holds \<^verbatim>\<open>None\<close>) and the bytes its \<^verbatim>\<open>read()\<close> returns.
\<close>

record uploaded_file =
  ftype :: "string option"
  fdata :: string

text \<open>
  One element of a request: a plain string, or the dictionary
  \<^verbatim>\<open>{"mime_type": ..., "data": ...}\<close>.
\<close>

datatype part = TextPart string | Blob (mime_type: string) (data: string)

text \<open>\<^verbatim>\<open>a or d\<close> for an optional string \<open>a\<close>: \<open>d\<close> when \<open>a\<close> is \<^verbatim>\<open>None\<close> or empty.\<close>

definition or_default :: "string option \<Rightarrow> string \<Rightarrow> string" where
  "or_default a d = (case a of None \<Rightarrow> d | Some s \<Rightarrow> if s \<noteq> [] then s else d)"

subsection \<open>\<^verbatim>\<open>_make_parts_from_inputs\<close>\<close>

text \<open>The body of \<^verbatim>\<open>for f in image_files\<close>: one dictionary appended per file.\<close>

definition image_part :: "uploaded_file \<Rightarrow> part" where
  "image_part f = Blob (or_default (ftype f) ''image/png'') (fdata f)"

definition audio_part :: "uploaded_file \<Rightarrow> part" where
  "audio_part f = Blob (or_default (ftype f) ''audio/wav'') (fdata f)"

fun append_images :: "part list \<Rightarrow> uploaded_file list \<Rightarrow> part list" where
  "append_images parts [] = parts"
| "append_images parts (f # fs) = append_images (parts @ [image_part f]) fs"

definition make_parts_from_inputs ::
    "string \<Rightarrow> uploaded_file list \<Rightarrow> uploaded_file option \<Rightarrow> part list" where
  "make_parts_from_inputs text image_files audio_file =
     (let parts0 = [];
          parts1 = (if text \<noteq> [] then parts0 @ [TextPart text] else parts0);
          parts2 = (if image_files \<noteq> [] then append_images parts1 image_files else parts1);
          parts3 = (case audio_file of
                      None \<Rightarrow> parts2
                    | Some a \<Rightarrow> parts2 @ [audio_part a])
      in parts3)"

subsection \<open>Exceptions as values\<close>

text \<open>
  A raised exception is a value: its class and the text \<^verbatim>\<open>str(e)\<close> gives.
  \<open>ProviderFailure\<close> stands for whatever the model library raises.
\<close>

datatype exn_kind = ValueError | IndexError | AttributeError | ProviderFailure

datatype exn = Exn (kind: exn_kind) (message: string)

subsection \<open>The provider's response and the extraction of its text\<close>

text \<open>
  Reading an attribute of an object of the provider's library either raises or holds a
  value; the value of a text attribute is a string or \<^verbatim>\<open>None\<close>.
\<close>

datatype 'a attr = Raising exn | Holding 'a

text \<open>
  \<^verbatim>\<open>getattr(obj, name, None)\<close>: the default stands in when the read raises
  \<^verbatim>\<open>AttributeError\<close>; any other exception goes on to the caller.
\<close>

definition getattr_default :: "'a option attr \<Rightarrow> exn + 'a option" where
  "getattr_default a =
     (case a of
        Holding v \<Rightarrow> Inr v
      | Raising e \<Rightarrow> if kind e = AttributeError then Inr None else Inl e)"

text \<open>
  The response object as \<^verbatim>\<open>run_model\<close> probes it; \<open>resp_repr\<close> is \<^verbatim>\<open>str(response)\<close>.
\<close>

record response_part =
  part_text :: "string option attr"

record candidate =
  content_parts :: "response_part list attr"

record response =
  resp_text :: "string option attr"
  resp_candidates :: "candidate list attr"
  resp_repr :: string

text \<open>
  \<^verbatim>\<open>response.candidates[0].content.parts[0].text\<close>, with every way it raises. The
  text it reads may be \<^verbatim>\<open>None\<close>.
\<close>

definition first_candidate_text :: "response \<Rightarrow> exn + string option" where
  "first_candidate_text r =
     (case resp_candidates r of
        Raising e \<Rightarrow> Inl e
      | Holding [] \<Rightarrow> Inl (Exn IndexError ''list index out of range'')
      | Holding (c # _) \<Rightarrow>
          (case content_parts c of
             Raising e \<Rightarrow> Inl e
           | Holding [] \<Rightarrow> Inl (Exn IndexError ''list index out of range'')
           | Holding (p # _) \<Rightarrow>
               (case part_text p of
                  Raising e \<Rightarrow> Inl e
                | Holding t \<Rightarrow> Inr t)))"

text \<open>The \<^verbatim>\<open>try ... except Exception\<close> around it.\<close>

definition candidate_text_or_repr :: "response \<Rightarrow> string option" where
  "candidate_text_or_repr r =
     (case first_candidate_text r of
        Inr t \<Rightarrow> t
      | Inl _ \<Rightarrow> Some (resp_repr r))"

text \<open>Truthiness of a value that is a string or \<^verbatim>\<open>None\<close>.\<close>

definition truthy :: "string option \<Rightarrow> bool" where
  "truthy v = (case v of None \<Rightarrow> False | Some s \<Rightarrow> s \<noteq> [])"

text \<open>
  The last lines of \<^verbatim>\<open>run_model\<close>. The read of \<^verbatim>\<open>response.text\<close> stands outside the
  \<^verbatim>\<open>try\<close>: what it raises, other than \<^verbatim>\<open>AttributeError\<close>, leaves \<^verbatim>\<open>run_model\<close>.
\<close>

definition extract_text :: "response \<Rightarrow> exn + string option" where
  "extract_text r =
     (case getattr_default (resp_text r) of
        Inl e \<Rightarrow> Inl e
      | Inr text_out \<Rightarrow>
          if \<not> truthy text_out then Inr (candidate_text_or_repr r) else Inr text_out)"

subsection \<open>The call to the provider\<close>

record generation_config =
  temperature :: real
  top_p :: real
  max_output_tokens :: nat

text \<open>
  The argument of \<^verbatim>\<open>generate_content\<close>: a parts list on the multimodal path, a
  single string on the text path.
\<close>

datatype content = ContentText string | ContentParts "part list"

record call =
  model_name :: string
  system_instruction :: string
  config :: generation_config
  contents :: content

text \<open>
  The world outside the script: the environment variable, the key handed to
  \<^verbatim>\<open>genai.configure\<close>, and the calls that went out to the provider, oldest first.
\<close>

record world =
  environ_key :: "string option"
  configured_key :: "string option"
  sent :: "call list"

text \<open>
  The provider is a parameter: given the world at the time of the call and the call,
  it raises or returns a response.
\<close>

type_synonym provider = "world \<Rightarrow> call \<Rightarrow> exn + response"

definition missing_key_message :: string where
  "missing_key_message =
     ''Missing GOOGLE_API_KEY environment variable. Set it in your terminal.''"

definition require_key :: "world \<Rightarrow> exn + world" where
  "require_key w =
     (case environ_key w of
        None \<Rightarrow> Inl (Exn ValueError missing_key_message)
      | Some api_key \<Rightarrow>
          if api_key = [] then Inl (Exn ValueError missing_key_message)
          else Inr (w\<lparr>configured_key := Some api_key\<rparr>))"

subsection \<open>\<^verbatim>\<open>run_model\<close>\<close>

definition use_multimodal :: "uploaded_file list \<Rightarrow> uploaded_file option \<Rightarrow> bool" where
  "use_multimodal images_files audio_file =
     ((images_files \<noteq> [] \<and> length images_files > 0) \<or> audio_file \<noteq> None)"

definition fallback_greeting :: string where
  "fallback_greeting = ''Say hello!''"

definition request_contents ::
    "string \<Rightarrow> uploaded_file list \<Rightarrow> uploaded_file option \<Rightarrow> content" where
  "request_contents text images_files audio_file =
     (if use_multimodal images_files audio_file
      then ContentParts (make_parts_from_inputs text images_files audio_file)
      else ContentText (if text \<noteq> [] then text else fallback_greeting))"

definition build_call ::
    "string \<Rightarrow> string \<Rightarrow> uploaded_file list \<Rightarrow> uploaded_file option \<Rightarrow> call" where
  "build_call persona text images_files audio_file =
     \<lparr>model_name =
        (if use_multimodal images_files audio_file then MULTIMODAL_MODEL else TEXT_MODEL),
      system_instruction = persona,
      config = \<lparr>temperature = TEMPERATURE, top_p = TOP_P,
                max_output_tokens = MAX_OUTPUT_TOKENS\<rparr>,
      contents = request_contents text images_files audio_file\<rparr>"

text \<open>
  \<^verbatim>\<open>run_model\<close> returns the reply (a string or \<^verbatim>\<open>None\<close>) or the exception it raised,
  and the world it leaves. \<open>persona\<close> is \<^verbatim>\<open>st.session_state.persona_prompt\<close>.
\<close>

definition run_model ::
    "provider \<Rightarrow> string \<Rightarrow> world \<Rightarrow> string \<Rightarrow> uploaded_file list \<Rightarrow> uploaded_file option
      \<Rightarrow> (exn + string option) \<times> world" where
  "run_model gen persona w text images_files audio_file =
     (case require_key w of
        Inl e \<Rightarrow> (Inl e, w)
      | Inr w1 \<Rightarrow>
          (let c = build_call persona text images_files audio_file;
               w2 = w1\<lparr>sent := sent w1 @ [c]\<rparr>
           in case gen w1 c of
                Inl e \<Rightarrow> (Inl e, w2)
              | Inr response \<Rightarrow> (extract_text response, w2)))"

text \<open>
  The provider library reads a string argument as a request of one text part.
\<close>

fun parts_of :: "content \<Rightarrow> part list" where
  "parts_of (ContentText s) = [TextPart s]"
| "parts_of (ContentParts ps) = ps"

subsection \<open>Library functions the send handler uses\<close>

text \<open>\<^verbatim>\<open>str(n)\<close> for a length: the decimal digits of \<open>n\<close>.\<close>

definition digit_char :: "nat \<Rightarrow> char" where
  "digit_char d = char_of (48 + d)"

fun str_nat :: "nat \<Rightarrow> string" where
  "str_nat n = (if n < 10 then [digit_char n] else str_nat (n div 10) @ [digit_char (n mod 10)])"

declare str_nat.simps [simp del]

text \<open>
  \<^verbatim>\<open>str.strip()\<close>. The characters Python counts as whitespace, each as its UTF-8
  bytes: U+0009 to U+000D, U+001C to U+0020, U+0085, U+00A0, U+1680, U+2000 to U+200A,
  U+2028, U+2029, U+202F, U+205F and U+3000.
\<close>

definition whitespace :: "string list" where
  "whitespace =
     [[CHR 0x09], [CHR 0x0A], [CHR 0x0B], [CHR 0x0C], [CHR 0x0D],
      [CHR 0x1C], [CHR 0x1D], [CHR 0x1E], [CHR 0x1F], [CHR 0x20],
      [CHR 0xC2, CHR 0x85], [CHR 0xC2, CHR 0xA0], [CHR 0xE1, CHR 0x9A, CHR 0x80],
      [CHR 0xE2, CHR 0x80, CHR 0x80], [CHR 0xE2, CHR 0x80, CHR 0x81],
      [CHR 0xE2, CHR 0x80, CHR 0x82], [CHR 0xE2, CHR 0x80, CHR 0x83],
      [CHR 0xE2, CHR 0x80, CHR 0x84], [CHR 0xE2, CHR 0x80, CHR 0x85],
      [CHR 0xE2, CHR 0x80, CHR 0x86], [CHR 0xE2, CHR 0x80, CHR 0x87],
      [CHR 0xE2, CHR 0x80, CHR 0x88], [CHR 0xE2, CHR 0x80, CHR 0x89],
      [CHR 0xE2, CHR 0x80, CHR 0x8A], [CHR 0xE2, CHR 0x80, CHR 0xA8],
      [CHR 0xE2, CHR 0x80, CHR 0xA9], [CHR 0xE2, CHR 0x80, CHR 0xAF],
      [CHR 0xE2, CHR 0x81, CHR 0x9F], [CHR 0xE3, CHR 0x80, CHR 0x80]]"

text \<open>Drop leading occurrences of the given byte sequences, as long as one matches.\<close>

function strip_prefixes :: "string list \<Rightarrow> string \<Rightarrow> string" where
  "strip_prefixes ps s =
     (case find (\<lambda>p. p \<noteq> [] \<and> prefix p s) ps of
        None \<Rightarrow> s
      | Some p \<Rightarrow> strip_prefixes ps (drop (length p) s))"
  by pat_completeness auto
termination
proof (relation "measure (\<lambda>(ps, s). length s)")
  show "wf (measure (\<lambda>(ps, s). length s))"
    by simp
next
  fix ps :: "string list" and s p :: string
  assume "find (\<lambda>p. p \<noteq> [] \<and> prefix p s) ps = Some p"
  then have "p \<noteq> []" and "prefix p s"
    by (auto simp: find_Some_iff)
  then have "length (drop (length p) s) < length s"
    by (cases p) (auto simp: prefix_def)
  then show "((ps, drop (length p) s), (ps, s)) \<in> measure (\<lambda>(ps, s). length s)"
    by simp
qed

declare strip_prefixes.simps [simp del]

definition lstrip :: "string \<Rightarrow> string" where
  "lstrip s = strip_prefixes whitespace s"

definition rstrip :: "string \<Rightarrow> string" where
  "rstrip s = rev (strip_prefixes (map rev whitespace) (rev s))"

definition strip :: "string \<Rightarrow> string" where
  "strip s = rstrip (lstrip s)"

subsection \<open>The session and the send handler\<close>

text \<open>
  A message of the chat. Its content is what the handler stored: a string, or
  \<^verbatim>\<open>None\<close> when \<^verbatim>\<open>run_model\<close> returned that.
\<close>

record message =
  role :: string
  content :: "string option"
  time :: string

text \<open>\<^verbatim>\<open>st.session_state\<close>: the chat and the active persona prompt.\<close>

record session =
  chat :: "message list"
  persona_prompt :: string

text \<open>What the widgets hold when the script runs.\<close>

record inputs =
  send_clicked :: bool
  user_text :: string
  images :: "uploaded_file list"
  audio_upload :: "uploaded_file option"
  mic_audio :: "uploaded_file option"

text \<open>
  How a run of the handler ends: the button was not clicked, the send was refused
  with a warning, or both messages were appended and \<^verbatim>\<open>st.rerun()\<close> restarted the
  script.
\<close>

datatype outcome = NotClicked | Warned string | Rerun

definition empty_send_warning :: string where
  "empty_send_warning = ''Type a message or attach media before sending.''"

text \<open>The two annotations, with the emoji as their UTF-8 bytes.\<close>

definition image_note :: "nat \<Rightarrow> string" where
  "image_note n =
     [CHR 0x0A, CHR 0x0A, CHR 0xF0, CHR 0x9F, CHR 0x96, CHR 0xBC, CHR 0xEF, CHR 0xB8, CHR 0x8F]
     @ '' '' @ str_nat n @ '' image(s) attached''"

definition audio_note :: string where
  "audio_note =
     [CHR 0x0A, CHR 0x0A, CHR 0xF0, CHR 0x9F, CHR 0x8E, CHR 0x99, CHR 0xEF, CHR 0xB8, CHR 0x8F]
     @ '' audio attached''"

definition preview_of :: "inputs \<Rightarrow> string" where
  "preview_of inp =
     (let preview0 = user_text inp;
          preview1 = (if images inp \<noteq> [] then preview0 @ image_note (length (images inp))
                      else preview0);
          preview2 = (if audio_upload inp \<noteq> None \<or> mic_audio inp \<noteq> None
                      then preview1 @ audio_note else preview1)
      in preview2)"

text \<open>\<^verbatim>\<open>mic_audio if mic_audio is not None else audio_upload\<close>\<close>

definition audio_source :: "inputs \<Rightarrow> uploaded_file option" where
  "audio_source inp = (case mic_audio inp of Some m \<Rightarrow> Some m | None \<Rightarrow> audio_upload inp)"

text \<open>The \<^verbatim>\<open>try ... except Exception as e\<close> around the call of \<^verbatim>\<open>run_model\<close>.\<close>

definition answer_of :: "exn + string option \<Rightarrow> string option" where
  "answer_of res =
     (case res of Inr answer \<Rightarrow> answer | Inl e \<Rightarrow> Some (''Error: '' @ message e))"

text \<open>
  One run of the send handler. \<open>now1\<close> and \<open>now2\<close> are what the two evaluations of
  \<^verbatim>\<open>datetime.now().strftime("%Y-%m-%d %H:%M:%S")\<close> return, in program order: the
  wall clock is read once before the call of the model and once after it.
\<close>

definition send_handler ::
    "provider \<Rightarrow> string \<Rightarrow> string \<Rightarrow> inputs \<Rightarrow> session \<Rightarrow> world
      \<Rightarrow> outcome \<times> session \<times> world" where
  "send_handler gen now1 now2 inp s w =
     (if \<not> send_clicked inp then (NotClicked, s, w)
      else if \<not> (user_text inp \<noteq> [] \<or> images inp \<noteq> [] \<or> audio_upload inp \<noteq> None
                  \<or> mic_audio inp \<noteq> None)
      then (Warned empty_send_warning, s, w)
      else
        (let stamp = now1;
             preview = preview_of inp;
             s1 = s\<lparr>chat := chat s
                    @ [\<lparr>role = ''user'', content = Some (strip preview), time = stamp\<rparr>]\<rparr>;
             (res, w1) = run_model gen (persona_prompt s1) w (user_text inp) (images inp)
                           (audio_source inp);
             answer = answer_of res;
             s2 = s1\<lparr>chat := chat s1
                    @ [\<lparr>role = ''assistant'', content = answer, time = now2\<rparr>]\<rparr>
         in (Rerun, s2, w1)))"

text \<open>A provider that treats every call alike: it raises, or returns, what it is given.\<close>

definition always :: "exn + response \<Rightarrow> provider" where
  "always outcome w c = outcome"

subsection \<open>The JSON export: \<^verbatim>\<open>json.dumps(chat, ensure_ascii=False, indent=2)\<close>\<close>

text \<open>
  A dictionary whose values are strings or \<^verbatim>\<open>None\<close>, its keys in insertion order.
\<close>

type_synonym json_object = "(string \<times> string option) list"

text \<open>
  A message of the chat is the dictionary \<^verbatim>\<open>{"role": ..., "content": ..., "time": ...}\<close>.
\<close>

definition message_dict :: "message \<Rightarrow> json_object" where
  "message_dict m =
     [(''role'', Some (role m)), (''content'', content m), (''time'', Some (time m))]"

text \<open>
  The encoder of strings without \<^verbatim>\<open>ensure_ascii\<close>: the quote, the backslash and the
  control characters below U+0020 are escaped, every other character is written as it
  is. On UTF-8 bytes that leaves each byte from \<open>0x20\<close> on alone.
\<close>

definition quote :: char where
  "quote = CHR 0x22"

definition backslash :: char where
  "backslash = CHR 0x5C"

definition hex_digit :: "nat \<Rightarrow> char" where
  "hex_digit d = ''0123456789abcdef'' ! d"

definition escape_char :: "char \<Rightarrow> string" where
  "escape_char c =
     (if c = backslash then [backslash, backslash]
      else if c = quote then [backslash, quote]
      else if c = CHR 0x08 then [backslash, CHR ''b'']
      else if c = CHR 0x0C then [backslash, CHR ''f'']
      else if c = CHR 0x0A then [backslash, CHR ''n'']
      else if c = CHR 0x0D then [backslash, CHR ''r'']
      else if c = CHR 0x09 then [backslash, CHR ''t'']
      else if (of_char c :: nat) < 32
        then [backslash, CHR ''u'', CHR ''0'', CHR ''0'',
              hex_digit (of_char c div 16), hex_digit (of_char c mod 16)]
      else [c])"

definition encode_basestring :: "string \<Rightarrow> string" where
  "encode_basestring s = [quote] @ concat (map escape_char s) @ [quote]"

text \<open>A value: a string is encoded as above, \<^verbatim>\<open>None\<close> is written \<open>null\<close>.\<close>

definition encode_value :: "string option \<Rightarrow> string" where
  "encode_value v = (case v of Some s \<Rightarrow> encode_basestring s | None \<Rightarrow> ''null'')"

text \<open>A line break and the indentation of the level: two spaces per level.\<close>

definition newline_indent :: "nat \<Rightarrow> string" where
  "newline_indent level = CHR 0x0A # replicate (2 * level) CHR '' ''"

text \<open>
  The loop over the items of a dictionary: the item separator goes before every item
  but the first, the key separator \<open>: \<close> between key and value.
\<close>

fun iterencode_items :: "bool \<Rightarrow> string \<Rightarrow> json_object \<Rightarrow> string" where
  "iterencode_items first item_separator [] = []"
| "iterencode_items first item_separator ((key, v) # items) =
     (if first then [] else item_separator)
     @ encode_basestring key @ '': '' @ encode_value v
     @ iterencode_items False item_separator items"

definition iterencode_dict :: "nat \<Rightarrow> json_object \<Rightarrow> string" where
  "iterencode_dict current_indent_level dct =
     (if dct = [] then ''{}''
      else
        (let level = current_indent_level + 1;
             item_separator = '','' @ newline_indent level
         in ''{'' @ newline_indent level
            @ iterencode_items True item_separator dct
            @ newline_indent (level - 1) @ ''}''))"

text \<open>The loop over the elements of a list, here dictionaries.\<close>

fun iterencode_elements :: "bool \<Rightarrow> nat \<Rightarrow> json_object list \<Rightarrow> string" where
  "iterencode_elements first level [] = []"
| "iterencode_elements first level (d # ds) =
     (if first then ''['' @ newline_indent level else '','' @ newline_indent level)
     @ iterencode_dict level d
     @ iterencode_elements False level ds"

definition iterencode_list :: "nat \<Rightarrow> json_object list \<Rightarrow> string" where
  "iterencode_list current_indent_level lst =
     (if lst = [] then ''[]''
      else
        (let level = current_indent_level + 1
         in iterencode_elements True level lst
            @ newline_indent (level - 1) @ '']''))"

definition json_dumps :: "message list \<Rightarrow> string" where
  "json_dumps history = iterencode_list 0 (map message_dict history)"

subsection \<open>Reading the export back: \<^verbatim>\<open>json.loads\<close>\<close>

text \<open>
  The decoder, for the documents the export can be: an array of objects whose members
  are strings or \<open>null\<close>. Any other document is outside this model and gives
  \<open>None\<close>, as does a malformed one.
\<close>

definition is_whitespace :: "char \<Rightarrow> bool" where
  "is_whitespace c = (c = CHR '' '' \<or> c = CHR 0x09 \<or> c = CHR 0x0A \<or> c = CHR 0x0D)"

fun skip_whitespace :: "string \<Rightarrow> string" where
  "skip_whitespace [] = []"
| "skip_whitespace (c # cs) = (if is_whitespace c then skip_whitespace cs else c # cs)"

definition hex_value :: "char \<Rightarrow> nat option" where
  "hex_value c =
     (let n = (of_char c :: nat) in
      if 48 \<le> n \<and> n \<le> 57 then Some (n - 48)
      else if 97 \<le> n \<and> n \<le> 102 then Some (n - 87)
      else if 65 \<le> n \<and> n \<le> 70 then Some (n - 55)
      else None)"

definition decode_uXXXX :: "char \<Rightarrow> char \<Rightarrow> char \<Rightarrow> char \<Rightarrow> nat option" where
  "decode_uXXXX a b c d =
     (case (hex_value a, hex_value b, hex_value c, hex_value d) of
        (Some x3, Some x2, Some x1, Some x0) \<Rightarrow> Some (((x3 * 16 + x2) * 16 + x1) * 16 + x0)
      | _ \<Rightarrow> None)"

text \<open>
  The UTF-8 bytes of a code point of the basic plane. Surrogates, which the decoder
  joins in pairs, are outside this model.
\<close>

definition utf8_of :: "nat \<Rightarrow> string option" where
  "utf8_of n =
     (if n < 0x80 then Some [char_of n]
      else if n < 0x800 then Some [char_of (0xC0 + n div 64), char_of (0x80 + n mod 64)]
      else if 0xD800 \<le> n \<and> n \<le> 0xDFFF then None
      else Some [char_of (0xE0 + n div 4096), char_of (0x80 + (n div 64) mod 64),
                 char_of (0x80 + n mod 64)])"

text \<open>The table of the one-letter escapes.\<close>

definition unescape :: "char \<Rightarrow> char option" where
  "unescape esc =
     (if esc = quote then Some quote
      else if esc = backslash then Some backslash
      else if esc = CHR ''/'' then Some CHR ''/''
      else if esc = CHR ''b'' then Some (CHR 0x08)
      else if esc = CHR ''f'' then Some (CHR 0x0C)
      else if esc = CHR ''n'' then Some (CHR 0x0A)
      else if esc = CHR ''r'' then Some (CHR 0x0D)
      else if esc = CHR ''t'' then Some (CHR 0x09)
      else None)"

text \<open>
  \<open>scanstring\<close> reads a string from behind its opening quote, and returns it with the
  input left behind the closing quote. A bare control character is refused.
\<close>

fun scanstring :: "string \<Rightarrow> (string \<times> string) option" where
  "scanstring [] = None"
| "scanstring (c # cs) =
     (if c = quote then Some ([], cs)
      else if c = backslash then
        (case cs of
           [] \<Rightarrow> None
         | esc # cs1 \<Rightarrow>
             if esc = CHR ''u'' then
               (case cs1 of
                  x3 # x2 # x1 # x0 # cs2 \<Rightarrow>
                    (case decode_uXXXX x3 x2 x1 x0 of
                       None \<Rightarrow> None
                     | Some uni \<Rightarrow>
                         (case utf8_of uni of
                            None \<Rightarrow> None
                          | Some bytes \<Rightarrow>
                              (case scanstring cs2 of
                                 None \<Rightarrow> None
                               | Some (s, rest) \<Rightarrow> Some (bytes @ s, rest))))
                | _ \<Rightarrow> None)
             else
               (case unescape esc of
                  None \<Rightarrow> None
                | Some ch \<Rightarrow>
                    (case scanstring cs1 of
                       None \<Rightarrow> None
                     | Some (s, rest) \<Rightarrow> Some (ch # s, rest))))
      else if (of_char c :: nat) < 32 then None
      else
        (case scanstring cs of
           None \<Rightarrow> None
         | Some (s, rest) \<Rightarrow> Some (c # s, rest)))"

text \<open>A quoted string at the head of the input.\<close>

definition parse_string :: "string \<Rightarrow> (string \<times> string) option" where
  "parse_string s = (case s of [] \<Rightarrow> None | c # cs \<Rightarrow> if c = quote then scanstring cs else None)"

text \<open>A value at the head of the input: a quoted string, or the word \<open>null\<close>.\<close>

definition parse_value :: "string \<Rightarrow> (string option \<times> string) option" where
  "parse_value s =
     (case s of
        [] \<Rightarrow> None
      | c # cs \<Rightarrow>
          if c = quote then
            (case scanstring cs of
               None \<Rightarrow> None
             | Some (v, rest) \<Rightarrow> Some (Some v, rest))
          else if c = CHR ''n'' \<and> take 4 s = ''null'' then Some (None, drop 4 s)
          else None)"

text \<open>The character at the head of the input is the one expected: the input behind it.\<close>

definition expect :: "char \<Rightarrow> string \<Rightarrow> string option" where
  "expect ch s = (case s of [] \<Rightarrow> None | c # cs \<Rightarrow> if c = ch then Some cs else None)"

lemma scanstring_shorter: "scanstring s = Some (v, rest) \<Longrightarrow> length rest < length s"
proof (induction "length s" arbitrary: s v rest rule: less_induct)
  case less
  note IH = less.hyps [rotated]
  show ?case
  proof (cases s)
    case Nil
    with less.prems show ?thesis
      by simp
  next
    case (Cons c cs)
    with less.prems show ?thesis
      by (fastforce split: if_splits list.splits option.splits prod.splits dest: IH)
  qed
qed

lemma skip_whitespace_length: "length (skip_whitespace s) \<le> length s"
  by (induction s) auto

lemma parse_string_shorter: "parse_string s = Some (v, rest) \<Longrightarrow> length rest < length s"
  by (auto simp: parse_string_def split: list.splits if_splits dest: scanstring_shorter)

lemma parse_value_shorter: "parse_value s = Some (v, rest) \<Longrightarrow> length rest < length s"
  by (auto simp: parse_value_def split: list.splits if_splits option.splits
      dest: scanstring_shorter)

lemma expect_shorter: "expect ch s = Some rest \<Longrightarrow> length rest < length s"
  by (auto simp: expect_def split: list.splits if_splits)

text \<open>
  The members of an object, from the opening quote of the first key to the closing
  brace: \<open>key : value\<close>, then a brace, or a comma and the next member.
\<close>

function parse_members :: "string \<Rightarrow> (json_object \<times> string) option" where
  "parse_members s =
     (case parse_string s of
        None \<Rightarrow> None
      | Some (key, s1) \<Rightarrow>
          (case expect CHR '':'' (skip_whitespace s1) of
             None \<Rightarrow> None
           | Some s2 \<Rightarrow>
               (case parse_value (skip_whitespace s2) of
                  None \<Rightarrow> None
                | Some (v, s3) \<Rightarrow>
                    (case skip_whitespace s3 of
                       [] \<Rightarrow> None
                     | c # s4 \<Rightarrow>
                         if c = CHR ''}'' then Some ([(key, v)], s4)
                         else if c = CHR '','' then
                           (case parse_members (skip_whitespace s4) of
                              None \<Rightarrow> None
                            | Some (items, rest) \<Rightarrow> Some ((key, v) # items, rest))
                         else None))))"
  by pat_completeness auto
termination
proof (relation "measure length")
  show "wf (measure length)"
    by simp
next
  fix s key s1 s2 v s3 c s4 and x :: "string \<times> string" and y :: "string option \<times> string"
  assume "parse_string s = Some x" and "(key, s1) = x"
    and "expect CHR '':'' (skip_whitespace s1) = Some s2"
    and "parse_value (skip_whitespace s2) = Some y" and "(v, s3) = y"
    and "skip_whitespace s3 = c # s4"
  then have "length s1 < length s" and "length s2 < length (skip_whitespace s1)"
    and "length s3 < length (skip_whitespace s2)" and "length s4 < length (skip_whitespace s3)"
    by (auto dest: parse_string_shorter parse_value_shorter expect_shorter)
  moreover have "length (skip_whitespace s1) \<le> length s1"
    and "length (skip_whitespace s2) \<le> length s2"
    and "length (skip_whitespace s3) \<le> length s3"
    and "length (skip_whitespace s4) \<le> length s4"
    by (rule skip_whitespace_length)+
  ultimately show "(skip_whitespace s4, s) \<in> measure length"
    by simp
qed

declare parse_members.simps [simp del]

lemma parse_members_shorter:
  "parse_members s = Some (items, rest) \<Longrightarrow> length rest < length s"
proof (induction s arbitrary: items rest rule: parse_members.induct)
  case (1 s)
  from "1.prems" obtain key s1 s2 v s3 c s4 where
    k: "parse_string s = Some (key, s1)"
    and e: "expect CHR '':'' (skip_whitespace s1) = Some s2"
    and p: "parse_value (skip_whitespace s2) = Some (v, s3)"
    and w: "skip_whitespace s3 = c # s4"
    by (subst (asm) parse_members.simps) (auto split: option.splits list.splits prod.splits)
  have len: "length s4 < length s"
    using parse_string_shorter [OF k] expect_shorter [OF e] parse_value_shorter [OF p] w
      skip_whitespace_length [of s1] skip_whitespace_length [of s2]
      skip_whitespace_length [of s3]
    by simp
  show ?case
  proof (cases "c = CHR ''}''")
    case True
    with "1.prems" k e p w len show ?thesis
      by (subst (asm) parse_members.simps) simp
  next
    case False
    with "1.prems" k e p w obtain items' where
      comma: "c = CHR '',''"
      and r: "parse_members (skip_whitespace s4) = Some (items', rest)"
      by (subst (asm) parse_members.simps) (auto split: option.splits if_splits)
    from "1.IH" [OF k refl e p refl w False comma r]
    have "length rest < length (skip_whitespace s4)" .
    with len skip_whitespace_length [of s4] show ?thesis
      by simp
  qed
qed

text \<open>An object: the empty one, or its members.\<close>

definition parse_object :: "string \<Rightarrow> (json_object \<times> string) option" where
  "parse_object s =
     (case expect CHR ''{'' s of
        None \<Rightarrow> None
      | Some s1 \<Rightarrow>
          (case skip_whitespace s1 of
             [] \<Rightarrow> None
           | c # s2 \<Rightarrow> if c = CHR ''}'' then Some ([], s2) else parse_members (c # s2)))"

lemma parse_object_shorter:
  "parse_object s = Some (d, rest) \<Longrightarrow> length rest < length s"
proof -
  assume a: "parse_object s = Some (d, rest)"
  then obtain s1 c s2 where e: "expect CHR ''{'' s = Some s1"
    and w: "skip_whitespace s1 = c # s2"
    by (auto simp: parse_object_def split: option.splits list.splits)
  from a e w have "length rest < length (c # s2)"
    by (auto simp: parse_object_def split: if_splits dest: parse_members_shorter)
  with expect_shorter [OF e] skip_whitespace_length [of s1] w show ?thesis
    by simp
qed

text \<open>
  The elements of an array, from the first one to the closing bracket: an object,
  then a bracket, or a comma and the next element.
\<close>

function parse_elements :: "string \<Rightarrow> (json_object list \<times> string) option" where
  "parse_elements s =
     (case parse_object s of
        None \<Rightarrow> None
      | Some (d, s1) \<Rightarrow>
          (case skip_whitespace s1 of
             [] \<Rightarrow> None
           | c # s2 \<Rightarrow>
               if c = CHR '']'' then Some ([d], s2)
               else if c = CHR '','' then
                 (case parse_elements (skip_whitespace s2) of
                    None \<Rightarrow> None
                  | Some (ds, rest) \<Rightarrow> Some (d # ds, rest))
               else None))"
  by pat_completeness auto
termination
proof (relation "measure length")
  show "wf (measure length)"
    by simp
next
  fix s d s1 c s2 and x :: "json_object \<times> string"
  assume "parse_object s = Some x" and "(d, s1) = x" and "skip_whitespace s1 = c # s2"
  then have "length s1 < length s" and "length s2 < length (skip_whitespace s1)"
    by (auto dest: parse_object_shorter)
  with skip_whitespace_length [of s1] skip_whitespace_length [of s2]
  show "(skip_whitespace s2, s) \<in> measure length"
    by simp
qed

declare parse_elements.simps [simp del]

definition parse_array :: "string \<Rightarrow> (json_object list \<times> string) option" where
  "parse_array s =
     (case expect CHR ''['' s of
        None \<Rightarrow> None
      | Some s1 \<Rightarrow>
          (case skip_whitespace s1 of
             [] \<Rightarrow> None
           | c # s2 \<Rightarrow> if c = CHR '']'' then Some ([], s2) else parse_elements (c # s2)))"

text \<open>
  \<^verbatim>\<open>json.loads\<close>: whitespace, the document, whitespace, and nothing after it.
\<close>

definition json_loads :: "string \<Rightarrow> json_object list option" where
  "json_loads s =
     (case parse_array (skip_whitespace s) of
        None \<Rightarrow> None
      | Some (v, rest) \<Rightarrow> if skip_whitespace rest = [] then Some v else None)"

text \<open>
  Reading a parsed object as a message: the values under its three keys, of which
  role and time are strings. In a Python dictionary a repeated key holds its last
  value.
\<close>

definition dict_get :: "json_object \<Rightarrow> string \<Rightarrow> string option option" where
  "dict_get d key = map_of (rev d) key"

definition message_of_dict :: "json_object \<Rightarrow> message option" where
  "message_of_dict d =
     (case (dict_get d ''role'', dict_get d ''content'', dict_get d ''time'') of
        (Some (Some r), Some c, Some (Some t)) \<Rightarrow> Some \<lparr>role = r, content = c, time = t\<rparr>
      | _ \<Rightarrow> None)"

section \<open>Properties\<close>

subsection \<open>The request\<close>

lemma append_images_eq: "append_images parts fs = parts @ map image_part fs"
  by (induction fs arbitrary: parts) simp_all

text \<open>
  C6. For every text, image list and optional audio file, the parts list is: the text
  (only when it is non-empty), then one \<open>(mime type, bytes)\<close> entry per image in input
  order, then the audio entry when an audio file is present.
\<close>

theorem make_parts_order:
  "make_parts_from_inputs text image_files audio_file =
     (if text = [] then [] else [TextPart text])
     @ map (\<lambda>f. Blob (or_default (ftype f) ''image/png'') (fdata f)) image_files
     @ (case audio_file of
          None \<Rightarrow> []
        | Some a \<Rightarrow> [Blob (or_default (ftype a) ''audio/wav'') (fdata a)])"
proof -
  have img: "map image_part image_files
      = map (\<lambda>f. Blob (or_default (ftype f) ''image/png'') (fdata f)) image_files"
    by (simp add: image_part_def)
  show ?thesis
    unfolding make_parts_from_inputs_def Let_def append_images_eq img [symmetric]
    by (cases audio_file) (simp_all add: audio_part_def image_part_def)
qed

theorem make_parts_order_witness:
  "make_parts_from_inputs ''look''
     [\<lparr>ftype = Some ''image/jpeg'', fdata = ''a''\<rparr>, \<lparr>ftype = Some [], fdata = ''b''\<rparr>]
     (Some \<lparr>ftype = None, fdata = ''c''\<rparr>)
   = [TextPart ''look'', Blob ''image/jpeg'' ''a'', Blob ''image/png'' ''b'',
      Blob ''audio/wav'' ''c'']"
  using make_parts_order [of "''look''"
      "[\<lparr>ftype = Some ''image/jpeg'', fdata = ''a''\<rparr>, \<lparr>ftype = Some [], fdata = ''b''\<rparr>]"
      "Some \<lparr>ftype = None, fdata = ''c''\<rparr>"]
  by (simp add: or_default_def)

lemma make_parts_closed:
  "make_parts_from_inputs text image_files audio_file =
     (if text = [] then [] else [TextPart text]) @ map image_part image_files
     @ (case audio_file of None \<Rightarrow> [] | Some a \<Rightarrow> [audio_part a])"
  unfolding make_parts_from_inputs_def Let_def append_images_eq
  by (cases audio_file) simp_all

lemma make_parts_nonempty:
  "use_multimodal image_files audio_file \<Longrightarrow>
     make_parts_from_inputs text image_files audio_file \<noteq> []"
  by (cases audio_file) (auto simp: make_parts_closed use_multimodal_def)

text \<open>
  C2 (as stated it fails). With empty text and one image the request holds the image
  alone: the greeting is substituted on the text path only, never by
  \<^verbatim>\<open>_make_parts_from_inputs\<close>, which for empty text and no attachment returns the
  empty list.
\<close>

theorem request_parts_counterexample:
  "parts_of (contents (build_call ''p'' [] [\<lparr>ftype = Some ''image/png'', fdata = ''x''\<rparr>] None))
     \<noteq> [TextPart fallback_greeting, Blob ''image/png'' ''x'']
   \<and> make_parts_from_inputs [] [\<lparr>ftype = Some ''image/png'', fdata = ''x''\<rparr>] None
     = [Blob ''image/png'' ''x'']
   \<and> make_parts_from_inputs [] [] None = []"
  by (simp add: build_call_def request_contents_def use_multimodal_def make_parts_closed
      image_part_def or_default_def)

text \<open>
  C2 (amended). Empty text and one image give the parts list \<open>[image]\<close>; empty text and
  no attachment give \<open>[fallback greeting]\<close>; and the request \<^verbatim>\<open>run_model\<close> builds is
  never empty, whatever the input.
\<close>

theorem request_parts_nonempty:
  "parts_of (contents (build_call persona [] [f] None))
     = [Blob (or_default (ftype f) ''image/png'') (fdata f)]
   \<and> parts_of (contents (build_call persona [] [] None)) = [TextPart ''Say hello!'']
   \<and> parts_of (contents (build_call persona text images_files audio_file)) \<noteq> []"
proof -
  have one: "parts_of (contents (build_call persona [] [f] None))
      = [Blob (or_default (ftype f) ''image/png'') (fdata f)]"
    by (simp add: build_call_def request_contents_def use_multimodal_def make_parts_closed
        image_part_def)
  have none: "parts_of (contents (build_call persona [] [] None)) = [TextPart ''Say hello!'']"
    by (simp add: build_call_def request_contents_def use_multimodal_def
        fallback_greeting_def)
  have all: "parts_of (contents (build_call persona text images_files audio_file)) \<noteq> []"
    by (simp add: build_call_def request_contents_def make_parts_nonempty)
  from one none all show ?thesis by blast
qed

theorem request_parts_nonempty_witness:
  "parts_of (contents (build_call ''p'' [] [\<lparr>ftype = Some ''image/webp'', fdata = ''x''\<rparr>] None))
     = [Blob ''image/webp'' ''x'']
   \<and> parts_of (contents (build_call ''p'' [] [] None)) = [TextPart ''Say hello!'']
   \<and> parts_of (contents (build_call ''p'' ''hello'' [] None)) \<noteq> []"
  using request_parts_nonempty [of "''p''" "\<lparr>ftype = Some ''image/webp'', fdata = ''x''\<rparr>"
      "''hello''" "[]" None]
  by (simp add: or_default_def)

lemma run_model_with_key:
  "environ_key w = Some k \<Longrightarrow> k \<noteq> [] \<Longrightarrow>
     run_model gen persona w utext images_files audio_file =
       (let c = build_call persona utext images_files audio_file;
            w1 = w\<lparr>configured_key := Some k\<rparr>
        in (case gen w1 c of Inl e \<Rightarrow> Inl e | Inr r \<Rightarrow> extract_text r,
            w1\<lparr>sent := sent w @ [c]\<rparr>))"
  by (simp add: run_model_def require_key_def Let_def split: sum.splits)

text \<open>
  C5. The call \<^verbatim>\<open>run_model\<close> sends names the multimodal model when the image list is
  non-empty or an audio file is present, and the text model otherwise; the two names
  differ.
\<close>

theorem model_variant_selection:
  "environ_key w = Some k \<and> k \<noteq> [] \<longrightarrow>
     map model_name (sent (snd (run_model gen persona w utext images_files audio_file)))
       = map model_name (sent w)
         @ [if images_files \<noteq> [] \<or> audio_file \<noteq> None then MULTIMODAL_MODEL else TEXT_MODEL]
     \<and> MULTIMODAL_MODEL \<noteq> TEXT_MODEL"
  by (simp add: run_model_with_key Let_def build_call_def use_multimodal_def
      MULTIMODAL_MODEL_def TEXT_MODEL_def)

theorem model_variant_selection_witness:
  "map model_name (sent (snd (run_model (\<lambda>w c. Inl (Exn ProviderFailure ''quota''))
      ''persona'' \<lparr>environ_key = Some ''k'', configured_key = None, sent = []\<rparr>
      ''hi'' [] None))) = [''gemini-flash-latest'']
   \<and> map model_name (sent (snd (run_model (\<lambda>w c. Inl (Exn ProviderFailure ''quota''))
      ''persona'' \<lparr>environ_key = Some ''k'', configured_key = None, sent = []\<rparr>
      ''hi'' [] (Some \<lparr>ftype = None, fdata = ''RIFF''\<rparr>)))) = [''gemini-2.0-flash'']"
  using
    model_variant_selection [where w = "\<lparr>environ_key = Some ''k'', configured_key = None, sent = []\<rparr>"
      and k = "''k''" and gen = "\<lambda>w c. Inl (Exn ProviderFailure ''quota'')"
      and persona = "''persona''" and utext = "''hi''" and images_files = "[]"
      and audio_file = None]
    model_variant_selection [where w = "\<lparr>environ_key = Some ''k'', configured_key = None, sent = []\<rparr>"
      and k = "''k''" and gen = "\<lambda>w c. Inl (Exn ProviderFailure ''quota'')"
      and persona = "''persona''" and utext = "''hi''" and images_files = "[]"
      and audio_file = "Some \<lparr>ftype = None, fdata = ''RIFF''\<rparr>"]
  by (simp add: MULTIMODAL_MODEL_def TEXT_MODEL_def)

text \<open>
  C7. Without the environment variable \<^verbatim>\<open>GOOGLE_API_KEY\<close>, \<^verbatim>\<open>run_model\<close> raises the
  missing-key error and leaves the world as it found it: no call has gone out to the
  provider.
\<close>

theorem missing_key_fails_first:
  "environ_key w = None \<Longrightarrow>
     run_model gen persona w utext images_files audio_file
       = (Inl (Exn ValueError missing_key_message), w)
     \<and> sent (snd (run_model gen persona w utext images_files audio_file)) = sent w"
  by (simp add: run_model_def require_key_def)

theorem missing_key_fails_first_witness:
  "run_model (\<lambda>w c. Inr \<lparr>resp_text = Holding (Some ''hello''), resp_candidates = Holding [], resp_repr = ''r''\<rparr>)
      ''persona'' \<lparr>environ_key = None, configured_key = None, sent = []\<rparr> ''hi'' [] None
     = (Inl (Exn ValueError
          ''Missing GOOGLE_API_KEY environment variable. Set it in your terminal.''),
        \<lparr>environ_key = None, configured_key = None, sent = []\<rparr>)"
proof -
  have h: "environ_key \<lparr>environ_key = None, configured_key = None, sent = []\<rparr> = None"
    by simp
  show ?thesis
    using missing_key_fails_first [OF h, of
        "\<lambda>w c. Inr \<lparr>resp_text = Holding (Some ''hello''), resp_candidates = Holding [], resp_repr = ''r''\<rparr>"
        "''persona''" "''hi''" "[]" None]
    by (simp add: missing_key_message_def)
qed

lemma extract_text_cases:
  "(getattr_default (resp_text r) = Inr (Some t) \<and> t \<noteq> [] \<longrightarrow> extract_text r = Inr (Some t))
   \<and> (getattr_default (resp_text r) = Inr v \<and> \<not> truthy v \<and> first_candidate_text r = Inr t'
      \<longrightarrow> extract_text r = Inr t')
   \<and> (getattr_default (resp_text r) = Inr v \<and> \<not> truthy v \<and> first_candidate_text r = Inl e'
      \<longrightarrow> extract_text r = Inr (Some (resp_repr r)))
   \<and> (getattr_default (resp_text r) = Inl e \<longrightarrow> extract_text r = Inl e)"
  by (simp add: extract_text_def candidate_text_or_repr_def truthy_def)

text \<open>
  C8. The code misses the fallback it attempts. The read of \<^verbatim>\<open>response.text\<close> stands
  before the \<^verbatim>\<open>try\<close>, and its default covers \<^verbatim>\<open>AttributeError\<close> alone: on a response
  whose text accessor raises \<^verbatim>\<open>ValueError\<close>, \<^verbatim>\<open>run_model\<close> raises that error. It returns
  neither the text of the first part of the first candidate, where there is one, nor
  the string form of the response.
\<close>

theorem text_read_raise_escapes:
  "extract_text \<lparr>resp_text = Raising (Exn ValueError ''no valid Part''),
       resp_candidates = Holding [], resp_repr = ''<response>''\<rparr>
     = Inl (Exn ValueError ''no valid Part'')
   \<and> extract_text \<lparr>resp_text = Raising (Exn ValueError ''no valid Part''),
       resp_candidates = Holding [\<lparr>content_parts = Holding [\<lparr>part_text = Holding (Some ''nested'')\<rparr>]\<rparr>],
       resp_repr = ''<response>''\<rparr>
     = Inl (Exn ValueError ''no valid Part'')
   \<and> fst (run_model
       (always (Inr \<lparr>resp_text = Raising (Exn ValueError ''no valid Part''),
          resp_candidates = Holding [], resp_repr = ''<response>''\<rparr>))
       ''persona'' \<lparr>environ_key = Some ''k'', configured_key = None, sent = []\<rparr>
       ''hi'' [] None)
     = Inl (Exn ValueError ''no valid Part'')"
  by (simp add: extract_text_def getattr_default_def run_model_with_key always_def)

subsection \<open>The send handler\<close>

lemma send_accepted:
  "send_clicked inp \<Longrightarrow>
   user_text inp \<noteq> [] \<or> images inp \<noteq> [] \<or> audio_upload inp \<noteq> None \<or> mic_audio inp \<noteq> None \<Longrightarrow>
   send_handler gen now1 now2 inp s w =
     (Rerun,
      s\<lparr>chat := chat s
          @ [\<lparr>role = ''user'', content = Some (strip (preview_of inp)), time = now1\<rparr>,
             \<lparr>role = ''assistant'',
              content = answer_of (fst (run_model gen (persona_prompt s) w (user_text inp)
                                         (images inp) (audio_source inp))),
              time = now2\<rparr>]\<rparr>,
      snd (run_model gen (persona_prompt s) w (user_text inp) (images inp) (audio_source inp)))"
  by (simp add: send_handler_def Let_def split: prod.splits)

text \<open>
  C1 (as stated it fails). The two timestamps are two readings of the local wall
  clock. When the clock steps back between them (the end of daylight saving time on
  2024-11-03, here), the assistant message carries the smaller timestamp.
\<close>

theorem send_timestamps_counterexample:
  "time (last (chat (fst (snd (send_handler
       (always (Inr \<lparr>resp_text = Holding (Some ''Hello!''), resp_candidates = Holding [], resp_repr = ''r''\<rparr>))
       ''2024-11-03 01:59:58'' ''2024-11-03 01:00:03''
       \<lparr>send_clicked = True, user_text = ''hi'', images = [], audio_upload = None,
          mic_audio = None\<rparr>
       \<lparr>chat = [], persona_prompt = ''You are a helpful, concise assistant.''\<rparr>
       \<lparr>environ_key = Some ''k'', configured_key = None, sent = []\<rparr>)))))
   < time (last (butlast (chat (fst (snd (send_handler
       (always (Inr \<lparr>resp_text = Holding (Some ''Hello!''), resp_candidates = Holding [], resp_repr = ''r''\<rparr>))
       ''2024-11-03 01:59:58'' ''2024-11-03 01:00:03''
       \<lparr>send_clicked = True, user_text = ''hi'', images = [], audio_upload = None,
          mic_audio = None\<rparr>
       \<lparr>chat = [], persona_prompt = ''You are a helpful, concise assistant.''\<rparr>
       \<lparr>environ_key = Some ''k'', configured_key = None, sent = []\<rparr>))))))"
  by (simp add: send_accepted)

text \<open>
  C1 (amended). A send with non-empty text or at least one attachment appends exactly
  one user message and then exactly one assistant message. The user message carries
  the clock reading taken before the model is called and the assistant message the
  reading taken after it, so the timestamps do not decrease whenever the clock did not
  step back between the two readings.
\<close>

theorem send_appends_pair:
  "send_clicked inp
   \<and> (user_text inp \<noteq> [] \<or> images inp \<noteq> [] \<or> audio_upload inp \<noteq> None \<or> mic_audio inp \<noteq> None)
   \<longrightarrow>
     (\<exists>u a. chat (fst (snd (send_handler gen now1 now2 inp s w))) = chat s @ [u, a]
        \<and> role u = ''user'' \<and> content u = Some (strip (preview_of inp)) \<and> time u = now1
        \<and> role a = ''assistant'' \<and> time a = now2
        \<and> content a = answer_of (fst (run_model gen (persona_prompt s) w (user_text inp)
                                       (images inp) (audio_source inp)))
        \<and> (now1 \<le> now2 \<longrightarrow> time u \<le> time a))"
proof
  assume a: "send_clicked inp
   \<and> (user_text inp \<noteq> [] \<or> images inp \<noteq> [] \<or> audio_upload inp \<noteq> None \<or> mic_audio inp \<noteq> None)"
  then have clicked: "send_clicked inp"
    and some: "user_text inp \<noteq> [] \<or> images inp \<noteq> [] \<or> audio_upload inp \<noteq> None
                \<or> mic_audio inp \<noteq> None"
    by blast+
  show "\<exists>u a. chat (fst (snd (send_handler gen now1 now2 inp s w))) = chat s @ [u, a]
        \<and> role u = ''user'' \<and> content u = Some (strip (preview_of inp)) \<and> time u = now1
        \<and> role a = ''assistant'' \<and> time a = now2
        \<and> content a = answer_of (fst (run_model gen (persona_prompt s) w (user_text inp)
                                       (images inp) (audio_source inp)))
        \<and> (now1 \<le> now2 \<longrightarrow> time u \<le> time a)"
    unfolding send_accepted [OF clicked some]
    by (intro exI [of _ "\<lparr>role = ''user'', content = Some (strip (preview_of inp)), time = now1\<rparr>"]
          exI [of _ "\<lparr>role = ''assistant'',
              content = answer_of (fst (run_model gen (persona_prompt s) w (user_text inp)
                                         (images inp) (audio_source inp))),
              time = now2\<rparr>"]) simp
qed

theorem send_appends_pair_witness:
  "\<exists>u a. chat (fst (snd (send_handler
       (always (Inr \<lparr>resp_text = Holding (Some ''Hello!''), resp_candidates = Holding [], resp_repr = ''r''\<rparr>))
       ''2024-11-03 10:00:00'' ''2024-11-03 10:00:02''
       \<lparr>send_clicked = True, user_text = '' hi '', images = [], audio_upload = None,
          mic_audio = None\<rparr>
       \<lparr>chat = [], persona_prompt = ''You are a helpful, concise assistant.''\<rparr>
       \<lparr>environ_key = Some ''k'', configured_key = None, sent = []\<rparr>))) = [u, a]
     \<and> role u = ''user'' \<and> content u = Some ''hi'' \<and> time u = ''2024-11-03 10:00:00''
     \<and> role a = ''assistant'' \<and> time a = ''2024-11-03 10:00:02'' \<and> content a = Some ''Hello!''
     \<and> time u \<le> time a"
proof -
  have strip_hi: "strip '' hi '' = ''hi''"
    by code_simp
  show ?thesis
    using send_appends_pair [where
      gen = "always (Inr \<lparr>resp_text = Holding (Some ''Hello!''), resp_candidates = Holding [],
                          resp_repr = ''r''\<rparr>)"
      and ?now1.0 = "''2024-11-03 10:00:00''" and ?now2.0 = "''2024-11-03 10:00:02''"
      and inp = "\<lparr>send_clicked = True, user_text = '' hi '', images = [], audio_upload = None,
          mic_audio = None\<rparr>"
      and s = "\<lparr>chat = [], persona_prompt = ''You are a helpful, concise assistant.''\<rparr>"
      and w = "\<lparr>environ_key = Some ''k'', configured_key = None, sent = []\<rparr>"]
    by (simp add: preview_of_def strip_hi run_model_with_key always_def extract_text_def
        getattr_default_def truthy_def answer_of_def audio_source_def Let_def)
qed

text \<open>
  C3. A send with empty text and no attachment is refused with the warning: the
  session, and with it the chat, and the world are what they were.
\<close>

theorem empty_send_rejected:
  "send_clicked inp \<and> user_text inp = [] \<and> images inp = [] \<and> audio_upload inp = None
     \<and> mic_audio inp = None
   \<longrightarrow> send_handler gen now1 now2 inp s w = (Warned empty_send_warning, s, w)
       \<and> chat (fst (snd (send_handler gen now1 now2 inp s w))) = chat s"
  by (simp add: send_handler_def)

theorem empty_send_rejected_witness:
  "send_handler (always (Inl (Exn ProviderFailure ''down''))) ''2024-11-03 10:00:00''
       ''2024-11-03 10:00:02''
       \<lparr>send_clicked = True, user_text = [], images = [], audio_upload = None,
          mic_audio = None\<rparr>
       \<lparr>chat = [\<lparr>role = ''user'', content = Some ''hi'', time = ''2024-11-03 09:00:00''\<rparr>],
          persona_prompt = ''p''\<rparr>
       \<lparr>environ_key = Some ''k'', configured_key = None, sent = []\<rparr>
     = (Warned ''Type a message or attach media before sending.'',
        \<lparr>chat = [\<lparr>role = ''user'', content = Some ''hi'', time = ''2024-11-03 09:00:00''\<rparr>],
           persona_prompt = ''p''\<rparr>,
        \<lparr>environ_key = Some ''k'', configured_key = None, sent = []\<rparr>)"
  using empty_send_rejected [where
      gen = "always (Inl (Exn ProviderFailure ''down''))"
      and ?now1.0 = "''2024-11-03 10:00:00''" and ?now2.0 = "''2024-11-03 10:00:02''"
      and inp = "\<lparr>send_clicked = True, user_text = [], images = [], audio_upload = None,
          mic_audio = None\<rparr>"
      and s = "\<lparr>chat = [\<lparr>role = ''user'', content = Some ''hi'', time = ''2024-11-03 09:00:00''\<rparr>],
          persona_prompt = ''p''\<rparr>"
      and w = "\<lparr>environ_key = Some ''k'', configured_key = None, sent = []\<rparr>"]
  by (simp add: empty_send_warning_def)

text \<open>
  C4. When \<^verbatim>\<open>run_model\<close> raises during an accepted send (a provider failure is one
  way), the handler still ends normally with \<^verbatim>\<open>st.rerun()\<close>: the assistant message
  appended after the user message has the content \<open>Error: \<close> followed by the text of
  the exception, and a further accepted send on the resulting session again appends
  its two messages.
\<close>

theorem provider_error_becomes_message:
  "send_clicked inp
   \<and> (user_text inp \<noteq> [] \<or> images inp \<noteq> [] \<or> audio_upload inp \<noteq> None \<or> mic_audio inp \<noteq> None)
   \<and> (fst (run_model gen (persona_prompt s) w (user_text inp) (images inp) (audio_source inp))
         = Inl e
       \<or> environ_key w = Some k \<and> k \<noteq> []
         \<and> gen (w\<lparr>configured_key := Some k\<rparr>)
              (build_call (persona_prompt s) (user_text inp) (images inp) (audio_source inp))
            = Inl e)
   \<longrightarrow>
     fst (send_handler gen now1 now2 inp s w) = Rerun
     \<and> (\<exists>u. chat (fst (snd (send_handler gen now1 now2 inp s w)))
            = chat s @ [u, \<lparr>role = ''assistant'', content = Some (''Error: '' @ message e),
                           time = now2\<rparr>])
     \<and> (\<exists>c. content (last (chat (fst (snd (send_handler gen now1 now2 inp s w))))) = Some c
            \<and> prefix ''Error: '' c)
     \<and> (send_clicked inp'
         \<and> (user_text inp' \<noteq> [] \<or> images inp' \<noteq> [] \<or> audio_upload inp' \<noteq> None
              \<or> mic_audio inp' \<noteq> None)
        \<longrightarrow> fst (send_handler gen' now3 now4 inp'
                   (fst (snd (send_handler gen now1 now2 inp s w)))
                   (snd (snd (send_handler gen now1 now2 inp s w)))) = Rerun
            \<and> length (chat (fst (snd (send_handler gen' now3 now4 inp'
                   (fst (snd (send_handler gen now1 now2 inp s w)))
                   (snd (snd (send_handler gen now1 now2 inp s w)))))))
              = length (chat s) + 4)"
proof (intro impI)
  assume a: "send_clicked inp
   \<and> (user_text inp \<noteq> [] \<or> images inp \<noteq> [] \<or> audio_upload inp \<noteq> None \<or> mic_audio inp \<noteq> None)
   \<and> (fst (run_model gen (persona_prompt s) w (user_text inp) (images inp) (audio_source inp))
         = Inl e
       \<or> environ_key w = Some k \<and> k \<noteq> []
         \<and> gen (w\<lparr>configured_key := Some k\<rparr>)
              (build_call (persona_prompt s) (user_text inp) (images inp) (audio_source inp))
            = Inl e)"
  then have clicked: "send_clicked inp"
    and some: "user_text inp \<noteq> [] \<or> images inp \<noteq> [] \<or> audio_upload inp \<noteq> None
                \<or> mic_audio inp \<noteq> None"
    by blast+
  from a have raised:
    "fst (run_model gen (persona_prompt s) w (user_text inp) (images inp) (audio_source inp))
       = Inl e"
    by (auto simp: run_model_with_key Let_def)
  note first = send_accepted [OF clicked some, of gen now1 now2 s w]
  have outcome: "fst (send_handler gen now1 now2 inp s w) = Rerun"
    by (simp add: first)
  have appended: "chat (fst (snd (send_handler gen now1 now2 inp s w)))
      = chat s @ [\<lparr>role = ''user'', content = Some (strip (preview_of inp)), time = now1\<rparr>,
                  \<lparr>role = ''assistant'', content = Some (''Error: '' @ message e), time = now2\<rparr>]"
    by (simp add: first raised answer_of_def)
  have starts: "\<exists>c. content (last (chat (fst (snd (send_handler gen now1 now2 inp s w)))))
        = Some c \<and> prefix ''Error: '' c"
    unfolding appended by simp
  have again: "fst (send_handler gen' now3 now4 inp'
                   (fst (snd (send_handler gen now1 now2 inp s w)))
                   (snd (snd (send_handler gen now1 now2 inp s w)))) = Rerun
            \<and> length (chat (fst (snd (send_handler gen' now3 now4 inp'
                   (fst (snd (send_handler gen now1 now2 inp s w)))
                   (snd (snd (send_handler gen now1 now2 inp s w)))))))
              = length (chat s) + 4"
    if b: "send_clicked inp'
         \<and> (user_text inp' \<noteq> [] \<or> images inp' \<noteq> [] \<or> audio_upload inp' \<noteq> None
              \<or> mic_audio inp' \<noteq> None)"
  proof -
    from b have clicked': "send_clicked inp'"
      and some': "user_text inp' \<noteq> [] \<or> images inp' \<noteq> [] \<or> audio_upload inp' \<noteq> None
                \<or> mic_audio inp' \<noteq> None"
      by blast+
    show ?thesis
      unfolding send_accepted [OF clicked' some'] using appended by simp
  qed
  from outcome appended starts again
  show "fst (send_handler gen now1 now2 inp s w) = Rerun
     \<and> (\<exists>u. chat (fst (snd (send_handler gen now1 now2 inp s w)))
            = chat s @ [u, \<lparr>role = ''assistant'', content = Some (''Error: '' @ message e),
                           time = now2\<rparr>])
     \<and> (\<exists>c. content (last (chat (fst (snd (send_handler gen now1 now2 inp s w))))) = Some c
            \<and> prefix ''Error: '' c)
     \<and> (send_clicked inp'
         \<and> (user_text inp' \<noteq> [] \<or> images inp' \<noteq> [] \<or> audio_upload inp' \<noteq> None
              \<or> mic_audio inp' \<noteq> None)
        \<longrightarrow> fst (send_handler gen' now3 now4 inp'
                   (fst (snd (send_handler gen now1 now2 inp s w)))
                   (snd (snd (send_handler gen now1 now2 inp s w)))) = Rerun
            \<and> length (chat (fst (snd (send_handler gen' now3 now4 inp'
                   (fst (snd (send_handler gen now1 now2 inp s w)))
                   (snd (snd (send_handler gen now1 now2 inp s w)))))))
              = length (chat s) + 4)"
    by blast
qed

theorem provider_error_becomes_message_witness:
  "fst (send_handler (always (Inl (Exn ProviderFailure ''429 quota exceeded'')))
       ''2024-11-03 10:00:00'' ''2024-11-03 10:00:02''
       \<lparr>send_clicked = True, user_text = ''hi'', images = [], audio_upload = None,
          mic_audio = None\<rparr>
       \<lparr>chat = [], persona_prompt = ''p''\<rparr>
       \<lparr>environ_key = Some ''k'', configured_key = None, sent = []\<rparr>) = Rerun
   \<and> (\<exists>u. chat (fst (snd (send_handler (always (Inl (Exn ProviderFailure ''429 quota exceeded'')))
       ''2024-11-03 10:00:00'' ''2024-11-03 10:00:02''
       \<lparr>send_clicked = True, user_text = ''hi'', images = [], audio_upload = None,
          mic_audio = None\<rparr>
       \<lparr>chat = [], persona_prompt = ''p''\<rparr>
       \<lparr>environ_key = Some ''k'', configured_key = None, sent = []\<rparr>)))
     = [u, \<lparr>role = ''assistant'', content = Some ''Error: 429 quota exceeded'',
            time = ''2024-11-03 10:00:02''\<rparr>])
   \<and> length (chat (fst (snd (send_handler
         (always (Inr \<lparr>resp_text = Holding (Some ''Hello!''), resp_candidates = Holding [], resp_repr = ''r''\<rparr>))
         ''2024-11-03 10:01:00'' ''2024-11-03 10:01:03''
         \<lparr>send_clicked = True, user_text = ''again'', images = [], audio_upload = None,
            mic_audio = None\<rparr>
         (fst (snd (send_handler (always (Inl (Exn ProviderFailure ''429 quota exceeded'')))
           ''2024-11-03 10:00:00'' ''2024-11-03 10:00:02''
           \<lparr>send_clicked = True, user_text = ''hi'', images = [], audio_upload = None,
              mic_audio = None\<rparr>
           \<lparr>chat = [], persona_prompt = ''p''\<rparr>
           \<lparr>environ_key = Some ''k'', configured_key = None, sent = []\<rparr>)))
         (snd (snd (send_handler (always (Inl (Exn ProviderFailure ''429 quota exceeded'')))
           ''2024-11-03 10:00:00'' ''2024-11-03 10:00:02''
           \<lparr>send_clicked = True, user_text = ''hi'', images = [], audio_upload = None,
              mic_audio = None\<rparr>
           \<lparr>chat = [], persona_prompt = ''p''\<rparr>
           \<lparr>environ_key = Some ''k'', configured_key = None, sent = []\<rparr>))))))) = 4"
  using provider_error_becomes_message [where
      gen = "always (Inl (Exn ProviderFailure ''429 quota exceeded''))"
      and ?now1.0 = "''2024-11-03 10:00:00''" and ?now2.0 = "''2024-11-03 10:00:02''"
      and inp = "\<lparr>send_clicked = True, user_text = ''hi'', images = [], audio_upload = None,
          mic_audio = None\<rparr>"
      and s = "\<lparr>chat = [], persona_prompt = ''p''\<rparr>"
      and w = "\<lparr>environ_key = Some ''k'', configured_key = None, sent = []\<rparr>"
      and k = "''k''" and e = "Exn ProviderFailure ''429 quota exceeded''"
      and gen' = "always (Inr \<lparr>resp_text = Holding (Some ''Hello!''), resp_candidates = Holding [],
                           resp_repr = ''r''\<rparr>)"
      and ?now3.0 = "''2024-11-03 10:01:00''" and ?now4.0 = "''2024-11-03 10:01:03''"
      and inp' = "\<lparr>send_clicked = True, user_text = ''again'', images = [],
          audio_upload = None, mic_audio = None\<rparr>"]
  by (simp add: always_def)

text \<open>
  C10. On an accepted send with both a microphone recording and an uploaded audio
  file, the handler does exactly what it does without the uploaded file, and the
  request sent ends with the recording as its only audio part. The uploaded file is
  the audio part when there is no recording.
\<close>

theorem microphone_takes_precedence:
  "(send_clicked inp \<and> mic_audio inp = Some m \<and> audio_upload inp = Some u
      \<longrightarrow> send_handler gen now1 now2 inp s w
            = send_handler gen now1 now2 (inp\<lparr>audio_upload := None\<rparr>) s w)
   \<and> (send_clicked inp \<and> mic_audio inp = Some m \<and> environ_key w = Some k \<and> k \<noteq> []
      \<longrightarrow> map contents (sent (snd (snd (send_handler gen now1 now2 inp s w))))
            = map contents (sent w)
              @ [ContentParts ((if user_text inp = [] then [] else [TextPart (user_text inp)])
                   @ map image_part (images inp) @ [audio_part m])])
   \<and> (send_clicked inp \<and> mic_audio inp = None \<and> audio_upload inp = Some u
        \<and> environ_key w = Some k \<and> k \<noteq> []
      \<longrightarrow> map contents (sent (snd (snd (send_handler gen now1 now2 inp s w))))
            = map contents (sent w)
              @ [ContentParts ((if user_text inp = [] then [] else [TextPart (user_text inp)])
                   @ map image_part (images inp) @ [audio_part u])])"
proof (intro conjI impI)
  assume a: "send_clicked inp \<and> mic_audio inp = Some m \<and> audio_upload inp = Some u"
  then have src: "audio_source (inp\<lparr>audio_upload := None\<rparr>) = audio_source inp"
    and pre: "preview_of (inp\<lparr>audio_upload := None\<rparr>) = preview_of inp"
    by (simp_all add: audio_source_def preview_of_def Let_def)
  from a show "send_handler gen now1 now2 inp s w
      = send_handler gen now1 now2 (inp\<lparr>audio_upload := None\<rparr>) s w"
    by (simp add: send_handler_def src pre)
next
  assume a: "send_clicked inp \<and> mic_audio inp = Some m \<and> environ_key w = Some k \<and> k \<noteq> []"
  then have src: "audio_source inp = Some m"
    by (simp add: audio_source_def)
  from a have clicked: "send_clicked inp"
    and some: "user_text inp \<noteq> [] \<or> images inp \<noteq> [] \<or> audio_upload inp \<noteq> None
                \<or> mic_audio inp \<noteq> None"
    by simp_all
  from a show "map contents (sent (snd (snd (send_handler gen now1 now2 inp s w))))
      = map contents (sent w)
        @ [ContentParts ((if user_text inp = [] then [] else [TextPart (user_text inp)])
             @ map image_part (images inp) @ [audio_part m])]"
    by (simp add: send_accepted [OF clicked some] src run_model_with_key Let_def
        build_call_def request_contents_def use_multimodal_def make_parts_closed)
next
  assume a: "send_clicked inp \<and> mic_audio inp = None \<and> audio_upload inp = Some u
        \<and> environ_key w = Some k \<and> k \<noteq> []"
  then have src: "audio_source inp = Some u"
    by (simp add: audio_source_def)
  from a have clicked: "send_clicked inp"
    and some: "user_text inp \<noteq> [] \<or> images inp \<noteq> [] \<or> audio_upload inp \<noteq> None
                \<or> mic_audio inp \<noteq> None"
    by simp_all
  from a show "map contents (sent (snd (snd (send_handler gen now1 now2 inp s w))))
      = map contents (sent w)
        @ [ContentParts ((if user_text inp = [] then [] else [TextPart (user_text inp)])
             @ map image_part (images inp) @ [audio_part u])]"
    by (simp add: send_accepted [OF clicked some] src run_model_with_key Let_def
        build_call_def request_contents_def use_multimodal_def make_parts_closed)
qed

theorem microphone_takes_precedence_witness:
  "map contents (sent (snd (snd (send_handler (always (Inl (Exn ProviderFailure ''down'')))
       ''2024-11-03 10:00:00'' ''2024-11-03 10:00:02''
       \<lparr>send_clicked = True, user_text = ''listen'', images = [],
          audio_upload = Some \<lparr>ftype = Some ''audio/mpeg'', fdata = ''ID3''\<rparr>,
          mic_audio = Some \<lparr>ftype = Some ''audio/wav'', fdata = ''RIFF''\<rparr>\<rparr>
       \<lparr>chat = [], persona_prompt = ''p''\<rparr>
       \<lparr>environ_key = Some ''k'', configured_key = None, sent = []\<rparr>))))
     = [ContentParts [TextPart ''listen'', Blob ''audio/wav'' ''RIFF'']]
   \<and> map contents (sent (snd (snd (send_handler (always (Inl (Exn ProviderFailure ''down'')))
       ''2024-11-03 10:00:00'' ''2024-11-03 10:00:02''
       \<lparr>send_clicked = True, user_text = ''listen'', images = [],
          audio_upload = Some \<lparr>ftype = Some ''audio/mpeg'', fdata = ''ID3''\<rparr>,
          mic_audio = None\<rparr>
       \<lparr>chat = [], persona_prompt = ''p''\<rparr>
       \<lparr>environ_key = Some ''k'', configured_key = None, sent = []\<rparr>))))
     = [ContentParts [TextPart ''listen'', Blob ''audio/mpeg'' ''ID3'']]
   \<and> send_handler (always (Inl (Exn ProviderFailure ''down'')))
       ''2024-11-03 10:00:00'' ''2024-11-03 10:00:02''
       \<lparr>send_clicked = True, user_text = ''listen'', images = [],
          audio_upload = Some \<lparr>ftype = Some ''audio/mpeg'', fdata = ''ID3''\<rparr>,
          mic_audio = Some \<lparr>ftype = Some ''audio/wav'', fdata = ''RIFF''\<rparr>\<rparr>
       \<lparr>chat = [], persona_prompt = ''p''\<rparr>
       \<lparr>environ_key = Some ''k'', configured_key = None, sent = []\<rparr>
     = send_handler (always (Inl (Exn ProviderFailure ''down'')))
       ''2024-11-03 10:00:00'' ''2024-11-03 10:00:02''
       \<lparr>send_clicked = True, user_text = ''listen'', images = [],
          audio_upload = None,
          mic_audio = Some \<lparr>ftype = Some ''audio/wav'', fdata = ''RIFF''\<rparr>\<rparr>
       \<lparr>chat = [], persona_prompt = ''p''\<rparr>
       \<lparr>environ_key = Some ''k'', configured_key = None, sent = []\<rparr>"
proof -
  let ?gen = "always (Inl (Exn ProviderFailure ''down''))"
  let ?s = "\<lparr>chat = [], persona_prompt = ''p''\<rparr>"
  let ?w = "\<lparr>environ_key = Some ''k'', configured_key = None, sent = []\<rparr>"
  let ?m = "\<lparr>ftype = Some ''audio/wav'', fdata = ''RIFF''\<rparr>"
  let ?u = "\<lparr>ftype = Some ''audio/mpeg'', fdata = ''ID3''\<rparr>"
  let ?both = "\<lparr>send_clicked = True, user_text = ''listen'', images = [],
          audio_upload = Some ?u, mic_audio = Some ?m\<rparr>"
  let ?upload = "\<lparr>send_clicked = True, user_text = ''listen'', images = [],
          audio_upload = Some ?u, mic_audio = None\<rparr>"
  let ?mic = "\<lparr>send_clicked = True, user_text = ''listen'', images = [],
          audio_upload = None, mic_audio = Some ?m\<rparr>"
  note both = microphone_takes_precedence [where gen = ?gen
      and ?now1.0 = "''2024-11-03 10:00:00''" and ?now2.0 = "''2024-11-03 10:00:02''"
      and inp = ?both and s = ?s and w = ?w and k = "''k''" and m = ?m and u = ?u]
  note upload = microphone_takes_precedence [where gen = ?gen
      and ?now1.0 = "''2024-11-03 10:00:00''" and ?now2.0 = "''2024-11-03 10:00:02''"
      and inp = ?upload and s = ?s and w = ?w and k = "''k''" and u = ?u]
  have sent_mic: "map contents (sent (snd (snd (send_handler ?gen
       ''2024-11-03 10:00:00'' ''2024-11-03 10:00:02'' ?both ?s ?w))))
     = [ContentParts [TextPart ''listen'', Blob ''audio/wav'' ''RIFF'']]"
    using both [THEN conjunct2, THEN conjunct1]
    by (simp add: audio_part_def or_default_def)
  have sent_upload: "map contents (sent (snd (snd (send_handler ?gen
       ''2024-11-03 10:00:00'' ''2024-11-03 10:00:02'' ?upload ?s ?w))))
     = [ContentParts [TextPart ''listen'', Blob ''audio/mpeg'' ''ID3'']]"
    using upload [THEN conjunct2, THEN conjunct2]
    by (simp add: audio_part_def or_default_def)
  have same: "send_handler ?gen ''2024-11-03 10:00:00'' ''2024-11-03 10:00:02'' ?both ?s ?w
     = send_handler ?gen ''2024-11-03 10:00:00'' ''2024-11-03 10:00:02'' ?mic ?s ?w"
    using both [THEN conjunct1]
    by simp
  show ?thesis
    by (rule conjI [OF sent_mic conjI [OF sent_upload same]])
qed

subsection \<open>The JSON export read back\<close>

lemma hex_value_hex_digit: "d < 16 \<Longrightarrow> hex_value (hex_digit d) = Some d"
proof -
  assume "d < 16"
  then have "d = 0 \<or> d = 1 \<or> d = 2 \<or> d = 3 \<or> d = 4 \<or> d = 5 \<or> d = 6 \<or> d = 7
      \<or> d = 8 \<or> d = 9 \<or> d = 10 \<or> d = 11 \<or> d = 12 \<or> d = 13 \<or> d = 14 \<or> d = 15"
    by arith
  then show ?thesis
    by (elim disjE) (simp_all add: hex_digit_def hex_value_def)
qed

lemma decode_escape:
  "n < 32 \<Longrightarrow> decode_uXXXX CHR ''0'' CHR ''0'' (hex_digit (n div 16)) (hex_digit (n mod 16)) = Some n"
proof -
  assume "n < 32"
  then have "n div 16 < 16" and "n mod 16 < 16"
    by simp_all
  then have "hex_value (hex_digit (n div 16)) = Some (n div 16)"
    and "hex_value (hex_digit (n mod 16)) = Some (n mod 16)"
    by (simp_all add: hex_value_hex_digit)
  moreover have "hex_value CHR ''0'' = Some 0"
    by (simp add: hex_value_def)
  ultimately show ?thesis
    by (simp add: decode_uXXXX_def)
qed

lemma scanstring_step:
  "c \<noteq> quote \<Longrightarrow> c \<noteq> backslash \<Longrightarrow> \<not> (of_char c :: nat) < 32 \<Longrightarrow>
     scanstring (c # rest) =
       (case scanstring rest of None \<Rightarrow> None | Some (s, r) \<Rightarrow> Some (c # s, r))"
  by simp

lemma scanstring_u00:
  "n < 32 \<Longrightarrow>
     scanstring (backslash # CHR ''u'' # CHR ''0'' # CHR ''0'' # hex_digit (n div 16)
                 # hex_digit (n mod 16) # rest) =
       (case scanstring rest of None \<Rightarrow> None | Some (s, r) \<Rightarrow> Some (char_of n # s, r))"
  by (simp add: backslash_def quote_def decode_escape utf8_of_def split: option.splits)

lemma scanstring_quote: "scanstring (quote # rest) = Some ([], rest)"
  by simp

declare scanstring.simps [simp del]

lemma scanstring_escape_char:
  "scanstring (escape_char c @ rest) =
     (case scanstring rest of None \<Rightarrow> None | Some (s, r) \<Rightarrow> Some (c # s, r))"
proof -
  consider (named) "c = backslash \<or> c = quote \<or> c = CHR 0x08 \<or> c = CHR 0x0C \<or> c = CHR 0x0A
        \<or> c = CHR 0x0D \<or> c = CHR 0x09"
    | (control) "c \<noteq> backslash" "c \<noteq> quote" "c \<noteq> CHR 0x08" "c \<noteq> CHR 0x0C" "c \<noteq> CHR 0x0A"
        "c \<noteq> CHR 0x0D" "c \<noteq> CHR 0x09" "(of_char c :: nat) < 32"
    | (plain) "c \<noteq> backslash" "c \<noteq> quote" "\<not> (of_char c :: nat) < 32"
    by blast
  then show ?thesis
  proof cases
    case named
    then show ?thesis
      by (elim disjE)
        (simp_all add: escape_char_def scanstring.simps unescape_def backslash_def quote_def
          split: option.splits)
  next
    case control
    then have "escape_char c = [backslash, CHR ''u'', CHR ''0'', CHR ''0'',
        hex_digit (of_char c div 16), hex_digit (of_char c mod 16)]"
      by (simp add: escape_char_def)
    with control(8) show ?thesis
      by (simp add: scanstring_u00 split: option.splits)
  next
    case plain
    then have "escape_char c = [c]"
      by (auto simp: escape_char_def)
    with plain show ?thesis
      by (simp add: scanstring_step)
  qed
qed

lemma scanstring_escaped:
  "scanstring (concat (map escape_char s) @ quote # rest) = Some (s, rest)"
  by (induction s)
    (simp_all add: scanstring_escape_char scanstring_quote)

lemma parse_string_encoded:
  "parse_string (encode_basestring s @ rest) = Some (s, rest)"
  by (simp add: parse_string_def encode_basestring_def scanstring_escaped)

lemma skip_whitespace_spaces:
  "skip_whitespace (replicate k CHR '' '' @ rest) = skip_whitespace rest"
  by (induction k) (simp_all add: is_whitespace_def)

lemma skip_whitespace_newline_indent:
  "skip_whitespace (newline_indent level @ rest) = skip_whitespace rest"
  by (simp add: newline_indent_def is_whitespace_def skip_whitespace_spaces)

lemma skip_whitespace_encoded:
  "skip_whitespace (encode_basestring s @ rest) = encode_basestring s @ rest"
  by (simp add: encode_basestring_def is_whitespace_def quote_def)

lemma parse_value_encoded: "parse_value (encode_value v @ rest) = Some (v, rest)"
proof (cases v)
  case None
  then show ?thesis
    by (simp add: parse_value_def encode_value_def quote_def)
next
  case (Some s)
  then show ?thesis
    by (simp add: parse_value_def encode_value_def encode_basestring_def scanstring_escaped)
qed

lemma skip_whitespace_value:
  "skip_whitespace (encode_value v @ rest) = encode_value v @ rest"
  by (cases v)
    (simp_all add: encode_value_def encode_basestring_def is_whitespace_def quote_def)

lemma parse_members_encoded:
  "parse_members (encode_basestring k @ '': '' @ encode_value v
       @ iterencode_items False ('','' @ newline_indent level) items
       @ newline_indent level' @ CHR ''}'' # rest)
     = Some ((k, v) # items, rest)"
proof (induction items arbitrary: k v)
  case Nil
  show ?case
    by (subst parse_members.simps)
      (simp add: parse_string_encoded parse_value_encoded expect_def is_whitespace_def
        skip_whitespace_value skip_whitespace_newline_indent)
next
  case (Cons item items)
  obtain k' v' where item: "item = (k', v')"
    by (cases item)
  have next_member: "parse_members (skip_whitespace (newline_indent level
        @ encode_basestring k' @ '': '' @ encode_value v'
        @ iterencode_items False ('','' @ newline_indent level) items
        @ newline_indent level' @ CHR ''}'' # rest))
      = Some ((k', v') # items, rest)"
    by (simp only: skip_whitespace_newline_indent skip_whitespace_encoded Cons.IH)
  show ?case
    by (subst parse_members.simps)
      (use next_member in \<open>simp add: item parse_string_encoded parse_value_encoded
        expect_def is_whitespace_def skip_whitespace_value skip_whitespace_newline_indent\<close>)
qed

lemma encode_basestring_head:
  "encode_basestring s @ rest = quote # concat (map escape_char s) @ quote # rest"
  by (simp add: encode_basestring_def)

lemma parse_object_nonempty:
  "skip_whitespace s1 = c # s2 \<Longrightarrow> c \<noteq> CHR ''}'' \<Longrightarrow>
     parse_object (CHR ''{'' # s1) = parse_members (c # s2)"
  by (simp add: parse_object_def expect_def)

lemma parse_object_encoded:
  "parse_object (iterencode_dict level dct @ rest) = Some (dct, rest)"
proof (cases dct)
  case Nil
  then show ?thesis
    by (simp add: parse_object_def iterencode_dict_def expect_def is_whitespace_def)
next
  case (Cons item items)
  obtain k v where item: "item = (k, v)"
    by (cases item)
  let ?after_key = "'': '' @ encode_value v
       @ iterencode_items False ('','' @ newline_indent (level + 1)) items
       @ newline_indent level @ CHR ''}'' # rest"
  have doc: "iterencode_dict level ((k, v) # items) @ rest
      = CHR ''{'' # newline_indent (level + 1) @ encode_basestring k @ ?after_key"
    by (simp add: iterencode_dict_def Let_def)
  have key: "encode_basestring k @ ?after_key
      = quote # concat (map escape_char k) @ quote # ?after_key"
    by (rule encode_basestring_head)
  have "skip_whitespace (newline_indent (level + 1) @ encode_basestring k @ ?after_key)
      = encode_basestring k @ ?after_key"
    by (simp only: skip_whitespace_newline_indent skip_whitespace_encoded)
  also note key
  finally have skip:
    "skip_whitespace (newline_indent (level + 1) @ encode_basestring k @ ?after_key)
      = quote # concat (map escape_char k) @ quote # ?after_key" .
  have "parse_object (CHR ''{'' # newline_indent (level + 1) @ encode_basestring k @ ?after_key)
      = parse_members (quote # concat (map escape_char k) @ quote # ?after_key)"
    by (rule parse_object_nonempty [OF skip]) (simp add: quote_def)
  also have "\<dots> = parse_members (encode_basestring k @ ?after_key)"
    by (simp only: key)
  also have "\<dots> = Some ((k, v) # items, rest)"
    by (rule parse_members_encoded)
  finally show ?thesis
    by (simp only: doc Cons item)
qed

lemma iterencode_dict_head:
  "\<exists>body. iterencode_dict level dct = CHR ''{'' # body"
  by (simp add: iterencode_dict_def Let_def)

lemma skip_whitespace_dict:
  "skip_whitespace (iterencode_dict level dct @ rest) = iterencode_dict level dct @ rest"
proof -
  obtain body where "iterencode_dict level dct = CHR ''{'' # body"
    using iterencode_dict_head by blast
  then show ?thesis
    by (simp add: is_whitespace_def)
qed

lemma parse_elements_encoded:
  "parse_elements (iterencode_dict level d
       @ iterencode_elements False level ds
       @ newline_indent level' @ CHR '']'' # rest)
     = Some (d # ds, rest)"
proof (induction ds arbitrary: d)
  case Nil
  show ?case
    by (subst parse_elements.simps)
      (simp add: parse_object_encoded skip_whitespace_newline_indent is_whitespace_def)
next
  case (Cons d' ds)
  have next_element: "parse_elements (skip_whitespace (newline_indent level
        @ iterencode_dict level d' @ iterencode_elements False level ds
        @ newline_indent level' @ CHR '']'' # rest))
      = Some (d' # ds, rest)"
    by (simp only: skip_whitespace_newline_indent skip_whitespace_dict Cons.IH)
  show ?case
    by (subst parse_elements.simps)
      (use next_element in \<open>simp add: parse_object_encoded is_whitespace_def\<close>)
qed

lemma parse_array_nonempty:
  "skip_whitespace s1 = c # s2 \<Longrightarrow> c \<noteq> CHR '']'' \<Longrightarrow>
     parse_array (CHR ''['' # s1) = parse_elements (c # s2)"
  by (simp add: parse_array_def expect_def)

lemma parse_array_encoded:
  "parse_array (iterencode_list 0 lst @ rest) = Some (lst, rest)"
proof (cases lst)
  case Nil
  then show ?thesis
    by (simp add: parse_array_def iterencode_list_def expect_def is_whitespace_def)
next
  case (Cons d ds)
  let ?after_first = "iterencode_elements False 1 ds @ newline_indent 0 @ CHR '']'' # rest"
  obtain body where body: "iterencode_dict 1 d = CHR ''{'' # body"
    using iterencode_dict_head by blast
  have doc: "iterencode_list 0 (d # ds) @ rest
      = CHR ''['' # newline_indent 1 @ iterencode_dict 1 d @ ?after_first"
    by (simp add: iterencode_list_def Let_def)
  have first: "iterencode_dict 1 d @ ?after_first = CHR ''{'' # body @ ?after_first"
    by (simp only: body append.simps)
  have "skip_whitespace (newline_indent 1 @ iterencode_dict 1 d @ ?after_first)
      = iterencode_dict 1 d @ ?after_first"
    by (simp only: skip_whitespace_newline_indent skip_whitespace_dict)
  also note first
  finally have skip: "skip_whitespace (newline_indent 1 @ iterencode_dict 1 d @ ?after_first)
      = CHR ''{'' # body @ ?after_first" .
  have "parse_array (CHR ''['' # newline_indent 1 @ iterencode_dict 1 d @ ?after_first)
      = parse_elements (CHR ''{'' # body @ ?after_first)"
    by (rule parse_array_nonempty [OF skip]) simp
  also have "\<dots> = parse_elements (iterencode_dict 1 d @ ?after_first)"
    by (simp only: first)
  also have "\<dots> = Some (d # ds, rest)"
    by (rule parse_elements_encoded)
  finally show ?thesis
    by (simp only: doc Cons)
qed

lemma iterencode_list_head:
  "\<exists>body. iterencode_list level lst = CHR ''['' # body"
  by (cases lst) (simp_all add: iterencode_list_def Let_def)

lemma json_loads_dumps_dicts:
  "json_loads (json_dumps history) = Some (map message_dict history)"
proof -
  obtain body where body: "iterencode_list 0 (map message_dict history) = CHR ''['' # body"
    using iterencode_list_head by blast
  then have "skip_whitespace (iterencode_list 0 (map message_dict history))
      = iterencode_list 0 (map message_dict history)"
    by (simp add: is_whitespace_def)
  moreover have "parse_array (iterencode_list 0 (map message_dict history))
      = Some (map message_dict history, [])"
    using parse_array_encoded [of "map message_dict history" "[]"] by simp
  ultimately show ?thesis
    by (simp add: json_loads_def json_dumps_def)
qed

lemma message_of_message_dict: "message_of_dict (message_dict m) = Some m"
  by (simp add: message_of_dict_def message_dict_def dict_get_def)

text \<open>
  C9. For every chat, reading the JSON export back gives, in order, one object per
  message, holding that message's role, content and time under their keys: read as
  messages, the objects are the messages of the chat.
\<close>

theorem json_export_round_trip:
  "json_loads (json_dumps history) = Some (map message_dict history)
   \<and> map_option (map message_of_dict) (json_loads (json_dumps history))
       = Some (map Some history)"
  by (simp add: json_loads_dumps_dicts message_of_message_dict comp_def)

theorem json_export_round_trip_witness:
  "json_loads (json_dumps
       [\<lparr>role = ''user'', content = Some [CHR ''a'', CHR 0x0A, CHR 0x22, CHR 0x5C, CHR 0x01, CHR 0xC3, CHR 0xA9],
          time = ''2024-11-03 10:00:00''\<rparr>,
        \<lparr>role = ''assistant'', content = None, time = ''2024-11-03 10:00:02''\<rparr>])
     = Some [[(''role'', Some ''user''),
              (''content'', Some [CHR ''a'', CHR 0x0A, CHR 0x22, CHR 0x5C, CHR 0x01, CHR 0xC3, CHR 0xA9]),
              (''time'', Some ''2024-11-03 10:00:00'')],
             [(''role'', Some ''assistant''), (''content'', None),
              (''time'', Some ''2024-11-03 10:00:02'')]]"
  using json_export_round_trip [of
      "[\<lparr>role = ''user'', content = Some [CHR ''a'', CHR 0x0A, CHR 0x22, CHR 0x5C, CHR 0x01, CHR 0xC3, CHR 0xA9],
          time = ''2024-11-03 10:00:00''\<rparr>,
        \<lparr>role = ''assistant'', content = None, time = ''2024-11-03 10:00:02''\<rparr>]"]
  by (simp add: message_dict_def)

end
